theory Spec2Isabelle
  imports Complex_Main
begin

section \<open>JavaScript values seen by the OHLCV fetcher\<close>

text \<open>
  The fetcher receives whatever the exchange client resolves with, so the response is an
  arbitrary JavaScript value. Numbers are IEEE doubles in the source; no arithmetic is done
  on them here (they are only moved from rows into columns), so a finite number carries a
  real and the three non-finite doubles are separate constructors.
\<close>

datatype jsnum = Fin real | PosInf | NegInf | NaN

datatype jsval =
    JUndefined
  | JNull
  | JBool bool
  | JNum jsnum
  | JStr string
  | JArr "jsval list"
  | JObj "(string \<times> jsval) list"

text \<open>
  Values thrown in the source are \<open>Error\<close> objects (\<open>new Error(...)\<close> in this
  repository, subclasses of \<open>Error\<close> from the exchange client and the runtime); what the
  catch clauses read of them is the \<open>message\<close> property.
\<close>

datatype js_error = Error string | TypeError string

fun message :: "js_error \<Rightarrow> string" where
  "message (Error m) = m"
| "message (TypeError m) = m"

text \<open>\<open>!v\<close> is true exactly on the falsy values.\<close>

fun truthy :: "jsval \<Rightarrow> bool" where
  "truthy JUndefined = False"
| "truthy JNull = False"
| "truthy (JBool b) = b"
| "truthy (JNum n) = (n \<noteq> Fin 0 \<and> n \<noteq> NaN)"
| "truthy (JStr s) = (s \<noteq> [])"
| "truthy (JArr xs) = True"
| "truthy (JObj kvs) = True"

fun isArray :: "jsval \<Rightarrow> bool" where
  "isArray (JArr xs) = True"
| "isArray v = False"

text \<open>Decimal rendering of an array index inside a template literal.\<close>

fun string_of_nat :: "nat \<Rightarrow> string" where
  "string_of_nat n =
     (if n < 10 then [''0123456789'' ! n]
      else string_of_nat (n div 10) @ [''0123456789'' ! (n mod 10)])"

declare string_of_nat.simps [simp del]

text \<open>
  \<open>row[k]\<close>: an element read. Out of range it yields \<open>undefined\<close>; on \<open>null\<close> and
  \<open>undefined\<close> it throws a \<open>TypeError\<close>.
\<close>

fun js_get :: "jsval \<Rightarrow> nat \<Rightarrow> js_error + jsval" where
  "js_get (JArr xs) k = Inr (if k < length xs then xs ! k else JUndefined)"
| "js_get (JStr s) k = Inr (if k < length s then JStr [s ! k] else JUndefined)"
| "js_get (JObj kvs) k =
     Inr (case map_of kvs (string_of_nat k) of None \<Rightarrow> JUndefined | Some v \<Rightarrow> v)"
| "js_get JUndefined k =
     Inl (TypeError (''Cannot read properties of undefined (reading '' @ [CHR 39] @
                     string_of_nat k @ [CHR 39] @ '')''))"
| "js_get JNull k =
     Inl (TypeError (''Cannot read properties of null (reading '' @ [CHR 39] @
                     string_of_nat k @ [CHR 39] @ '')''))"
| "js_get (JBool b) k = Inr JUndefined"
| "js_get (JNum n) k = Inr JUndefined"

text \<open>\<open>rows.map(f)\<close> where the callback may throw: the first throw ends the map.\<close>

fun map_rows :: "(jsval \<Rightarrow> js_error + 'a) \<Rightarrow> jsval list \<Rightarrow> js_error + 'a list" where
  "map_rows f [] = Inr []"
| "map_rows f (r # rs) =
     (case f r of
        Inl e \<Rightarrow> Inl e
      | Inr y \<Rightarrow> (case map_rows f rs of Inl e \<Rightarrow> Inl e | Inr ys \<Rightarrow> Inr (y # ys)))"

section \<open>The price series\<close>

text \<open>\<open>new Date(v)\<close>: the timestamp value made from \<open>v\<close>.\<close>

datatype js_date = NewDate jsval

record price_series =
  dates :: "js_date list"
  openings :: "jsval list"
  highs :: "jsval list"
  lows :: "jsval list"
  closings :: "jsval list"
  volumes :: "jsval list"

definition series_invariant :: "price_series \<Rightarrow> bool" where
  "series_invariant ps \<longleftrightarrow>
     length (openings ps) = length (dates ps) \<and>
     length (highs ps) = length (dates ps) \<and>
     length (lows ps) = length (dates ps) \<and>
     length (closings ps) = length (dates ps) \<and>
     length (volumes ps) = length (dates ps) \<and>
     1 \<le> length (dates ps)"

section \<open>The exchange client and the network\<close>

text \<open>
  One call \<open>exchange.fetchOHLCV(symbol, timeframe, undefined, limit)\<close>. The promise it
  returns either resolves with a value or rejects with an error; the provider may change
  its own state \<open>'w\<close> (rate limiter, market data) at each call.
\<close>

record request =
  rq_symbol :: string
  rq_timeframe :: string
  rq_since :: jsval
  rq_limit :: int

record 'w exchange =
  has :: "string \<Rightarrow> jsval"
  fetchOHLCV :: "request \<Rightarrow> 'w \<Rightarrow> (js_error + jsval) \<times> 'w"

text \<open>The network: the provider's state and the requests issued to it so far.\<close>

record 'w net =
  world :: 'w
  requests :: "request list"

definition call_fetchOHLCV ::
  "'w exchange \<Rightarrow> request \<Rightarrow> 'w net \<Rightarrow> (js_error + jsval) \<times> 'w net" where
  "call_fetchOHLCV ex rq n =
     (case fetchOHLCV ex rq (world n) of
        (out, w') \<Rightarrow> (out, \<lparr>world = w', requests = requests n @ [rq]\<rparr>))"

section \<open>Module initialisation\<close>

text \<open>
  \<open>ALLOWED_EXCHANGES\<close> is a \<open>Set\<close> built from ten distinct strings; spreading it
  (\<open>[...ALLOWED_EXCHANGES]\<close>) lists them in insertion order.
\<close>

definition ALLOWED_EXCHANGES :: "string list" where
  "ALLOWED_EXCHANGES =
     [''binance'', ''kraken'', ''coinbase'', ''bybit'', ''okx'',
      ''kucoin'', ''gate'', ''huobi'', ''bitfinex'', ''mexc'']"

fun join :: "string \<Rightarrow> string list \<Rightarrow> string" where
  "join sep [] = []"
| "join sep [x] = x"
| "join sep (x # y # ys) = x @ sep @ join sep (y # ys)"

text \<open>
  \<open>process.env.EXCHANGE_NAME || "binance"\<close>: an unset variable reads \<open>undefined\<close>, and
  the empty string is falsy as well.
\<close>

definition exid_of_env :: "string option \<Rightarrow> string" where
  "exid_of_env env =
     (case env of None \<Rightarrow> ''binance'' | Some s \<Rightarrow> if s = [] then ''binance'' else s)"

record client_options =
  enableRateLimit :: bool

record 'w module_state =
  exid :: string
  exchange :: "'w exchange"

text \<open>
  The namespace of the exchange library is a parameter: \<open>ccxt name\<close> is the class found
  under \<open>name\<close>, if any. The second component of the result lists the constructor calls
  made.
\<close>

definition load_module ::
  "(string \<Rightarrow> (client_options \<Rightarrow> 'w exchange) option) \<Rightarrow> string option \<Rightarrow>
   (js_error + 'w module_state) \<times> (string \<times> client_options) list" where
  "load_module ccxt env =
     (let x = exid_of_env env in
      if x \<notin> set ALLOWED_EXCHANGES then
        (Inl (Error (''Unsupported exchange: '' @ [CHR 34] @ x @ [CHR 34] @ ''. Allowed: '' @
                     join '', '' ALLOWED_EXCHANGES)), [])
      else
        (case ccxt x of
           None \<Rightarrow> (Inl (TypeError ''ccxt[exid] is not a constructor''), [])
         | Some ctor \<Rightarrow>
             (Inr \<lparr>exid = x, exchange = ctor \<lparr>enableRateLimit = True\<rparr>\<rparr>,
              [(x, \<lparr>enableRateLimit = True\<rparr>)])))"

section \<open>fetchOhlcvData\<close>

text \<open>
  The validation loop \<open>for (let i = 0; i < ohlcv.length; i++)\<close>. A row is rejected when
  it is not an array or, being one, has fewer than six elements (\<open>||\<close> reads \<open>.length\<close>
  only of an array).
\<close>

fun malformed_row :: "jsval \<Rightarrow> bool" where
  "malformed_row (JArr fs) = (length fs < 6)"
| "malformed_row v = True"

function check_rows :: "jsval list \<Rightarrow> nat \<Rightarrow> js_error + unit" where
  "check_rows ohlcv i =
     (if i < length ohlcv then
        (if malformed_row (ohlcv ! i) then
           Inl (Error (''Malformed OHLCV row at index '' @ string_of_nat i @
                       '': expected 6 values''))
         else check_rows ohlcv (Suc i))
      else Inr ())"
  by pat_completeness auto
termination
  by (relation "measure (\<lambda>(ohlcv, i). length ohlcv - i)") auto

declare check_rows.simps [simp del]

text \<open>The object literal: six maps over the rows, evaluated in the order written.\<close>

definition transpose_rows :: "jsval list \<Rightarrow> js_error + price_series" where
  "transpose_rows ohlcv =
     (case map_rows (\<lambda>row. map_sum id NewDate (js_get row 0)) ohlcv of
        Inl e \<Rightarrow> Inl e
      | Inr ds \<Rightarrow>
     (case map_rows (\<lambda>row. js_get row 1) ohlcv of
        Inl e \<Rightarrow> Inl e
      | Inr os \<Rightarrow>
     (case map_rows (\<lambda>row. js_get row 2) ohlcv of
        Inl e \<Rightarrow> Inl e
      | Inr hs \<Rightarrow>
     (case map_rows (\<lambda>row. js_get row 3) ohlcv of
        Inl e \<Rightarrow> Inl e
      | Inr ls \<Rightarrow>
     (case map_rows (\<lambda>row. js_get row 4) ohlcv of
        Inl e \<Rightarrow> Inl e
      | Inr cs \<Rightarrow>
     (case map_rows (\<lambda>row. js_get row 5) ohlcv of
        Inl e \<Rightarrow> Inl e
      | Inr vs \<Rightarrow>
          Inr \<lparr>dates = ds, openings = os, highs = hs, lows = ls,
               closings = cs, volumes = vs\<rparr>))))))"

text \<open>What the try block does with the value the provider resolved with.\<close>

definition handle_response :: "jsval \<Rightarrow> js_error + price_series" where
  "handle_response ohlcv =
     (case ohlcv of
        JArr rows \<Rightarrow>
          (if length rows = 0 then Inl (Error ''No OHLCV data returned from exchange'')
           else (case check_rows rows 0 of
                   Inl e \<Rightarrow> Inl e
                 | Inr u \<Rightarrow> transpose_rows rows))
      | _ \<Rightarrow> Inl (Error ''No OHLCV data returned from exchange''))"

text \<open>The argument list \<open>(symbol, timeframe, undefined, limit)\<close> of the provider call.\<close>

definition ohlcv_request :: "string \<Rightarrow> string \<Rightarrow> int \<Rightarrow> request" where
  "ohlcv_request symbol timeframe limit =
     \<lparr>rq_symbol = symbol, rq_timeframe = timeframe, rq_since = JUndefined, rq_limit = limit\<rparr>"

text \<open>The body of the try block; a rejected promise is thrown at the \<open>await\<close>.\<close>

definition try_block ::
  "'w module_state \<Rightarrow> string \<Rightarrow> string \<Rightarrow> int \<Rightarrow> 'w net \<Rightarrow>
   (js_error + price_series) \<times> 'w net" where
  "try_block ms symbol timeframe limit n =
     (if \<not> truthy (has (exchange ms) ''fetchOHLCV'') then
        (Inl (Error (exid ms @ '' does not support fetchOHLCV'')), n)
      else
        (case call_fetchOHLCV (exchange ms) (ohlcv_request symbol timeframe limit) n of
           (Inl e, n') \<Rightarrow> (Inl e, n')
         | (Inr ohlcv, n') \<Rightarrow> (handle_response ohlcv, n')))"

definition fetchOhlcvData ::
  "'w module_state \<Rightarrow> string \<Rightarrow> string \<Rightarrow> int \<Rightarrow> 'w net \<Rightarrow>
   (js_error + price_series) \<times> 'w net" where
  "fetchOhlcvData ms symbol timeframe limit n =
     (case try_block ms symbol timeframe limit n of
        (Inl error, n') \<Rightarrow>
          (Inl (Error (''Failed to fetch OHLCV data: '' @ message error)), n')
      | (Inr asset, n') \<Rightarrow> (Inr asset, n'))"

text \<open>
  The series expected of well-formed rows, against which the transposition is compared:
  entry \<open>i\<close> of each column is the field of row \<open>i\<close> at the column's position, the date
  column holding the timestamp made from field 0.
\<close>

definition columns :: "jsval list list \<Rightarrow> price_series" where
  "columns fss =
     \<lparr>dates = map (\<lambda>fs. NewDate (fs ! 0)) fss, openings = map (\<lambda>fs. fs ! 1) fss,
      highs = map (\<lambda>fs. fs ! 2) fss, lows = map (\<lambda>fs. fs ! 3) fss,
      closings = map (\<lambda>fs. fs ! 4) fss, volumes = map (\<lambda>fs. fs ! 5) fss\<rparr>"

section \<open>Tool handlers\<close>

text \<open>
  A handler returns \<open>{ content: [{ type: "text", text: ... }] }\<close>. All thirty-three
  registered handlers have the same body: fetch, one call into the indicator library,
  \<open>JSON.stringify\<close>, inside one try/catch. The indicator call and the serialiser belong
  to other libraries and are parameters; either may throw.
\<close>

datatype content_item = TextContent string

datatype tool_result = ToolResult "content_item list"

definition handler_try ::
  "'w module_state \<Rightarrow> (price_series \<Rightarrow> js_error + 'r) \<Rightarrow> ('r \<Rightarrow> js_error + string) \<Rightarrow>
   string \<Rightarrow> string \<Rightarrow> int \<Rightarrow> 'w net \<Rightarrow> (js_error + tool_result) \<times> 'w net" where
  "handler_try ms indicator stringify symbol timeframe limit n =
     (case fetchOhlcvData ms symbol timeframe limit n of
        (Inl e, n') \<Rightarrow> (Inl e, n')
      | (Inr asset, n') \<Rightarrow>
          (case indicator asset of
             Inl e \<Rightarrow> (Inl e, n')
           | Inr result \<Rightarrow>
               (case stringify result of
                  Inl e \<Rightarrow> (Inl e, n')
                | Inr str \<Rightarrow> (Inr (ToolResult [TextContent str]), n'))))"

definition tool_handler ::
  "'w module_state \<Rightarrow> (price_series \<Rightarrow> js_error + 'r) \<Rightarrow> ('r \<Rightarrow> js_error + string) \<Rightarrow>
   string \<Rightarrow> string \<Rightarrow> int \<Rightarrow> 'w net \<Rightarrow> tool_result \<times> 'w net" where
  "tool_handler ms indicator stringify symbol timeframe limit n =
     (case handler_try ms indicator stringify symbol timeframe limit n of
        (Inl error, n') \<Rightarrow> (ToolResult [TextContent (''Error: '' @ message error)], n')
      | (Inr res, n') \<Rightarrow> (res, n'))"

text \<open>The three handlers that open the three registration files.\<close>

definition calculate_awesome_oscillator ::
  "'w module_state \<Rightarrow> (jsval list \<Rightarrow> jsval list \<Rightarrow> int \<Rightarrow> int \<Rightarrow> js_error + 'r) \<Rightarrow>
   ('r \<Rightarrow> js_error + string) \<Rightarrow> string \<Rightarrow> string \<Rightarrow> int \<Rightarrow> int \<Rightarrow> int \<Rightarrow> 'w net \<Rightarrow>
   tool_result \<times> 'w net" where
  "calculate_awesome_oscillator ms awesomeOscillator stringify
       symbol timeframe fastPeriod slowPeriod limit =
     tool_handler ms
       (\<lambda>asset. awesomeOscillator (highs asset) (lows asset) fastPeriod slowPeriod)
       stringify symbol timeframe limit"

definition calculate_acceleration_bands_strategy ::
  "'w module_state \<Rightarrow> (price_series \<Rightarrow> int \<Rightarrow> js_error + 'r) \<Rightarrow>
   ('r \<Rightarrow> js_error + string) \<Rightarrow> string \<Rightarrow> string \<Rightarrow> int \<Rightarrow> int \<Rightarrow> 'w net \<Rightarrow>
   tool_result \<times> 'w net" where
  "calculate_acceleration_bands_strategy ms accelerationBandsStrategy stringify
       symbol timeframe period limit =
     tool_handler ms (\<lambda>asset. accelerationBandsStrategy asset period)
       stringify symbol timeframe limit"

definition calculate_momentum_strategy ::
  "'w module_state \<Rightarrow> (price_series \<Rightarrow> int \<Rightarrow> js_error + 'r) \<Rightarrow>
   ('r \<Rightarrow> js_error + string) \<Rightarrow> string \<Rightarrow> string \<Rightarrow> int \<Rightarrow> int \<Rightarrow> 'w net \<Rightarrow>
   tool_result \<times> 'w net" where
  "calculate_momentum_strategy ms momentumStrategy stringify
       symbol timeframe period limit =
     tool_handler ms (\<lambda>asset. momentumStrategy asset period)
       stringify symbol timeframe limit"

section \<open>Example providers\<close>

text \<open>
  A provider that declares \<open>cap\<close> under \<open>has["fetchOHLCV"]\<close>, settles every call with
  \<open>out\<close> and counts the calls it has served.
\<close>

definition example_exchange :: "jsval \<Rightarrow> js_error + jsval \<Rightarrow> nat exchange" where
  "example_exchange cap out =
     \<lparr>has = (\<lambda>k. if k = ''fetchOHLCV'' then cap else JUndefined),
      fetchOHLCV = (\<lambda>rq w. (out, Suc w))\<rparr>"

definition example_module :: "jsval \<Rightarrow> js_error + jsval \<Rightarrow> nat module_state" where
  "example_module cap out = \<lparr>exid = ''binance'', exchange = example_exchange cap out\<rparr>"

definition fresh_net :: "nat net" where
  "fresh_net = \<lparr>world = 0, requests = []\<rparr>"

definition bar :: "real \<Rightarrow> real \<Rightarrow> real \<Rightarrow> real \<Rightarrow> real \<Rightarrow> real \<Rightarrow> jsval list" where
  "bar t op hi lo cl vol =
     [JNum (Fin t), JNum (Fin op), JNum (Fin hi), JNum (Fin lo), JNum (Fin cl), JNum (Fin vol)]"

definition two_bars :: "jsval list list" where
  "two_bars = [bar 1700000000000 10 12 9 11 100, bar 1700003600000 11 13 10 12 150]"

text \<open>Five rows of which row 3 has four fields only.\<close>

definition short_row_response :: "jsval list" where
  "short_row_response =
     [JArr (bar 1 10 12 9 11 100), JArr (bar 2 11 13 10 12 150), JArr (bar 3 12 14 11 13 90),
      JArr [JNum (Fin 4), JNum (Fin 13), JNum (Fin 15), JNum (Fin 12)],
      JArr (bar 5 14 16 13 15 70)]"

definition example_ccxt :: "string \<Rightarrow> (client_options \<Rightarrow> nat exchange) option" where
  "example_ccxt name =
     (if name \<in> set ALLOWED_EXCHANGES
      then Some (\<lambda>opts. example_exchange (JBool True) (Inr (JArr (map JArr two_bars))))
      else None)"

section \<open>The validation loop and the transposition\<close>

lemma check_rows_ok:
  "(\<forall>j. i \<le> j \<and> j < length rows \<longrightarrow> \<not> malformed_row (rows ! j)) \<Longrightarrow> check_rows rows i = Inr ()"
proof (induction rows i rule: check_rows.induct)
  case (1 ohlcv i)
  show ?case
  proof (cases "i < length ohlcv")
    case True
    with "1.prems" have ok: "\<not> malformed_row (ohlcv ! i)" by simp
    from "1.prems" have "\<forall>j. Suc i \<le> j \<and> j < length ohlcv \<longrightarrow> \<not> malformed_row (ohlcv ! j)"
      by simp
    with "1.IH" True ok have "check_rows ohlcv (Suc i) = Inr ()" by blast
    with True ok show ?thesis by (simp add: check_rows.simps [of ohlcv i])
  next
    case False
    then show ?thesis by (simp add: check_rows.simps [of ohlcv i])
  qed
qed

lemma check_rows_first_bad:
  "i \<le> k \<Longrightarrow> k < length rows \<Longrightarrow> malformed_row (rows ! k) \<Longrightarrow>
   (\<forall>j. i \<le> j \<and> j < k \<longrightarrow> \<not> malformed_row (rows ! j)) \<Longrightarrow>
   check_rows rows i =
     Inl (Error (''Malformed OHLCV row at index '' @ string_of_nat k @ '': expected 6 values''))"
proof (induction rows i rule: check_rows.induct)
  case (1 ohlcv i)
  show ?case
  proof (cases "i = k")
    case True
    with "1.prems" show ?thesis by (simp add: check_rows.simps [of ohlcv k])
  next
    case False
    with "1.prems" have lt: "i < k" and il: "i < length ohlcv" by simp_all
    with "1.prems" have ok: "\<not> malformed_row (ohlcv ! i)" by simp
    from lt have le: "Suc i \<le> k" by simp
    from "1.prems" have rest: "\<forall>j. Suc i \<le> j \<and> j < k \<longrightarrow> \<not> malformed_row (ohlcv ! j)"
      by simp
    from "1.IH" [OF il ok le "1.prems"(2) "1.prems"(3) rest] il ok
    show ?thesis by (simp add: check_rows.simps [of ohlcv i])
  qed
qed

lemma check_rows_Inl:
  "check_rows rows i = Inl e \<Longrightarrow>
   \<exists>k. i \<le> k \<and> k < length rows \<and> malformed_row (rows ! k) \<and>
       (\<forall>j. i \<le> j \<and> j < k \<longrightarrow> \<not> malformed_row (rows ! j)) \<and>
       e = Error (''Malformed OHLCV row at index '' @ string_of_nat k @ '': expected 6 values'')"
proof (induction rows i rule: check_rows.induct)
  case (1 ohlcv i)
  from "1.prems" have il: "i < length ohlcv"
    by (simp add: check_rows.simps [of ohlcv i] split: if_splits)
  show ?case
  proof (cases "malformed_row (ohlcv ! i)")
    case True
    with il "1.prems" have "e = Error (''Malformed OHLCV row at index '' @ string_of_nat i @ '': expected 6 values'')"
      by (simp add: check_rows.simps [of ohlcv i])
    with il True show ?thesis by (intro exI [of _ i]) auto
  next
    case False
    with il "1.prems" have "check_rows ohlcv (Suc i) = Inl e"
      by (simp add: check_rows.simps [of ohlcv i])
    from "1.IH" [OF il False this] obtain k where k: "Suc i \<le> k" "k < length ohlcv"
      "malformed_row (ohlcv ! k)" "\<forall>j. Suc i \<le> j \<and> j < k \<longrightarrow> \<not> malformed_row (ohlcv ! j)"
      "e = Error (''Malformed OHLCV row at index '' @ string_of_nat k @ '': expected 6 values'')"
      by blast
    have "\<forall>j. i \<le> j \<and> j < k \<longrightarrow> \<not> malformed_row (ohlcv ! j)"
    proof (intro allI impI)
      fix j assume j: "i \<le> j \<and> j < k"
      show "\<not> malformed_row (ohlcv ! j)"
      proof (cases "j = i")
        case True with False show ?thesis by simp
      next
        case False with j have "Suc i \<le> j \<and> j < k" by simp
        with k(4) show ?thesis by blast
      qed
    qed
    with k show ?thesis by (intro exI [of _ k]) auto
  qed
qed

lemma check_rows_Inr:
  "check_rows rows i = Inr u \<Longrightarrow> i \<le> j \<Longrightarrow> j < length rows \<Longrightarrow> \<not> malformed_row (rows ! j)"
proof (induction rows i rule: check_rows.induct)
  case (1 ohlcv i)
  from "1.prems" have il: "i < length ohlcv" by simp
  with "1.prems"(1) have ok: "\<not> malformed_row (ohlcv ! i)"
    by (simp add: check_rows.simps [of ohlcv i] split: if_splits)
  with il "1.prems"(1) have rest: "check_rows ohlcv (Suc i) = Inr u"
    by (simp add: check_rows.simps [of ohlcv i])
  show ?case
  proof (cases "j = i")
    case True with ok show ?thesis by simp
  next
    case False
    with "1.prems" have "Suc i \<le> j" by simp
    from "1.IH" [OF il ok rest this "1.prems"(3)] show ?thesis .
  qed
qed

lemma map_rows_length: "map_rows f rows = Inr ys \<Longrightarrow> length ys = length rows"
  by (induction rows arbitrary: ys) (auto split: sum.splits)

lemma map_rows_arrays:
  "map_rows (\<lambda>row. js_get row k) (map JArr fss) =
   Inr (map (\<lambda>fs. if k < length fs then fs ! k else JUndefined) fss)"
  by (induction fss) simp_all

lemma map_rows_dates:
  "map_rows (\<lambda>row. map_sum id NewDate (js_get row k)) (map JArr fss) =
   Inr (map (\<lambda>fs. NewDate (if k < length fs then fs ! k else JUndefined)) fss)"
  by (induction fss) simp_all

lemma not_malformed_row: "\<not> malformed_row r \<longleftrightarrow> (\<exists>fs. r = JArr fs \<and> 6 \<le> length fs)"
  by (cases r) auto

lemma rows_arrays:
  assumes "\<forall>j<length rows. \<not> malformed_row (rows ! j)"
  shows "\<exists>fss. rows = map JArr fss \<and> (\<forall>fs\<in>set fss. 6 \<le> length fs)"
  using assms
proof (induction rows)
  case Nil
  then show ?case by simp
next
  case (Cons r rows)
  from Cons.prems have "\<not> malformed_row r" by auto
  then obtain fs where fs: "r = JArr fs" "6 \<le> length fs" by (auto simp: not_malformed_row)
  from Cons.prems have "\<forall>j<length rows. \<not> malformed_row (rows ! j)" by auto
  with Cons.IH obtain fss where fss: "rows = map JArr fss" "\<forall>fs\<in>set fss. 6 \<le> length fs" by blast
  with fs show ?case by (intro exI [of _ "fs # fss"]) simp
qed

lemma column_in_range:
  "\<forall>fs\<in>set fss. k < length fs \<Longrightarrow>
   map (\<lambda>fs. if k < length fs then fs ! k else JUndefined) fss = map (\<lambda>fs. fs ! k) fss"
  by (induction fss) auto

lemma date_column_in_range:
  "\<forall>fs\<in>set fss. k < length fs \<Longrightarrow>
   map (\<lambda>fs. NewDate (if k < length fs then fs ! k else JUndefined)) fss =
   map (\<lambda>fs. NewDate (fs ! k)) fss"
  by (induction fss) auto

lemma transpose_rows_arrays:
  assumes "\<forall>fs\<in>set fss. 6 \<le> length fs"
  shows "transpose_rows (map JArr fss) = Inr (columns fss)"
proof -
  have l0: "\<forall>fs\<in>set fss. 0 < length fs" and l1: "\<forall>fs\<in>set fss. 1 < length fs"
    and l2: "\<forall>fs\<in>set fss. 2 < length fs" and l3: "\<forall>fs\<in>set fss. 3 < length fs"
    and l4: "\<forall>fs\<in>set fss. 4 < length fs" and l5: "\<forall>fs\<in>set fss. 5 < length fs"
    using assms by fastforce+
  show ?thesis
    unfolding transpose_rows_def columns_def
    by (simp only: map_rows_dates map_rows_arrays date_column_in_range [OF l0]
          column_in_range [OF l1] column_in_range [OF l2] column_in_range [OF l3]
          column_in_range [OF l4] column_in_range [OF l5]) simp
qed

lemma handle_response_arrays:
  assumes "fss \<noteq> []" "\<forall>fs\<in>set fss. 6 \<le> length fs"
  shows "handle_response (JArr (map JArr fss)) = Inr (columns fss)"
proof -
  have "\<forall>j. 0 \<le> j \<and> j < length (map JArr fss) \<longrightarrow> \<not> malformed_row (map JArr fss ! j)"
    using assms(2) by (simp add: not_less)
  then have "check_rows (map JArr fss) 0 = Inr ()" by (rule check_rows_ok)
  with assms show ?thesis by (simp add: handle_response_def transpose_rows_arrays)
qed

section \<open>What the fetcher returns, by provider outcome\<close>

lemma handle_response_Inl:
  assumes "handle_response v = Inl e"
  shows "(e = Error ''No OHLCV data returned from exchange'' \<and> (\<not> isArray v \<or> v = JArr [])) \<or>
         (\<exists>rows k. v = JArr rows \<and> k < length rows \<and> malformed_row (rows ! k) \<and>
            (\<forall>j<k. \<not> malformed_row (rows ! j)) \<and>
            e = Error (''Malformed OHLCV row at index '' @ string_of_nat k @
                       '': expected 6 values''))"
proof (cases v)
  case (JArr rows)
  show ?thesis
  proof (cases "rows = []")
    case True
    with assms JArr show ?thesis by (simp add: handle_response_def)
  next
    case False
    show ?thesis
    proof (cases "check_rows rows 0")
      case (Inl e')
      with assms JArr False have "e' = e" by (simp add: handle_response_def)
      with Inl check_rows_Inl [of rows 0 e] JArr show ?thesis by auto
    next
      case (Inr u)
      then have "\<forall>j<length rows. \<not> malformed_row (rows ! j)"
        using check_rows_Inr [of rows 0 u] by simp
      then obtain fss where fss: "rows = map JArr fss" "\<forall>fs\<in>set fss. 6 \<le> length fs"
        using rows_arrays by blast
      then have "transpose_rows rows = Inr (columns fss)"
        by (simp add: transpose_rows_arrays)
      with assms JArr False Inr show ?thesis by (simp add: handle_response_def)
    qed
  qed
qed (use assms in \<open>simp_all add: handle_response_def\<close>)

lemma handle_response_Inr:
  assumes "handle_response v = Inr ps"
  shows "\<exists>fss. v = JArr (map JArr fss) \<and> fss \<noteq> [] \<and> (\<forall>fs\<in>set fss. 6 \<le> length fs) \<and>
           ps = columns fss"
proof (cases v)
  case (JArr rows)
  with assms have ne: "rows \<noteq> []" by (auto simp: handle_response_def)
  with assms JArr obtain u where u: "check_rows rows 0 = Inr u"
    by (cases "check_rows rows 0") (simp_all add: handle_response_def)
  then have "\<forall>j<length rows. \<not> malformed_row (rows ! j)"
    using check_rows_Inr [of rows 0 u] by simp
  then obtain fss where fss: "rows = map JArr fss" "\<forall>fs\<in>set fss. 6 \<le> length fs"
    using rows_arrays by blast
  then have "transpose_rows rows = Inr (columns fss)"
    by (simp add: transpose_rows_arrays)
  with assms JArr ne u have "ps = columns fss" by (simp add: handle_response_def)
  with JArr fss ne show ?thesis by auto
qed (use assms in \<open>simp_all add: handle_response_def\<close>)

lemma series_invariant_columns: "fss \<noteq> [] \<Longrightarrow> series_invariant (columns fss)"
  by (cases fss) (simp_all add: series_invariant_def columns_def)

lemma fetch_without_capability:
  "\<not> truthy (has (exchange ms) ''fetchOHLCV'') \<Longrightarrow>
   fetchOhlcvData ms symbol timeframe limit n =
     (Inl (Error (''Failed to fetch OHLCV data: '' @ exid ms @
                  '' does not support fetchOHLCV'')), n)"
  by (simp add: fetchOhlcvData_def try_block_def)

lemma fetch_with_capability:
  assumes "truthy (has (exchange ms) ''fetchOHLCV'')"
    and "fetchOHLCV (exchange ms) (ohlcv_request symbol timeframe limit) (world n) = (out, w')"
  shows "fetchOhlcvData ms symbol timeframe limit n =
     ((case out of
         Inl e \<Rightarrow> Inl (Error (''Failed to fetch OHLCV data: '' @ message e))
       | Inr v \<Rightarrow>
           (case handle_response v of
              Inl e \<Rightarrow> Inl (Error (''Failed to fetch OHLCV data: '' @ message e))
            | Inr ps \<Rightarrow> Inr ps)),
      \<lparr>world = w', requests = requests n @ [ohlcv_request symbol timeframe limit]\<rparr>)"
  using assms
  by (simp add: fetchOhlcvData_def try_block_def call_fetchOHLCV_def split: sum.splits)

section \<open>Claims on the returned series and on malformed rows\<close>

text \<open>
  C1. When the provider declares \<open>fetchOHLCV\<close> and resolves with \<open>N \<ge> 1\<close> rows, each an
  array of at least six fields, \<open>fetchOhlcvData\<close> returns a price series whose six
  columns each have length \<open>N\<close>; at every row index \<open>i\<close> the date is the timestamp made
  from field 0 of row \<open>i\<close>, and the opening, high, low, closing and volume entries are
  fields 1 to 5 of row \<open>i\<close>, in the order of the rows.
\<close>

theorem fetchOhlcvData_columns:
  assumes "truthy (has (exchange ms) ''fetchOHLCV'')"
    and "fetchOHLCV (exchange ms) (ohlcv_request symbol timeframe limit) (world n) =
           (Inr (JArr (map JArr fss)), w')"
    and "fss \<noteq> []"
    and "\<forall>fs\<in>set fss. 6 \<le> length fs"
  shows "\<exists>ps. fst (fetchOhlcvData ms symbol timeframe limit n) = Inr ps \<and>
           length (dates ps) = length fss \<and> length (openings ps) = length fss \<and>
           length (highs ps) = length fss \<and> length (lows ps) = length fss \<and>
           length (closings ps) = length fss \<and> length (volumes ps) = length fss \<and>
           (\<forall>i<length fss.
              dates ps ! i = NewDate (fss ! i ! 0) \<and> openings ps ! i = fss ! i ! 1 \<and>
              highs ps ! i = fss ! i ! 2 \<and> lows ps ! i = fss ! i ! 3 \<and>
              closings ps ! i = fss ! i ! 4 \<and> volumes ps ! i = fss ! i ! 5)"
proof -
  have "handle_response (JArr (map JArr fss)) = Inr (columns fss)"
    using assms(3,4) by (rule handle_response_arrays)
  then have "fst (fetchOhlcvData ms symbol timeframe limit n) = Inr (columns fss)"
    by (simp add: fetch_with_capability [OF assms(1,2)])
  then show ?thesis
    by (intro exI [of _ "columns fss"]) (simp add: columns_def)
qed

text \<open>
  A provider resolving with two bars: the second entry of each column is read off the
  second row.
\<close>

theorem fetchOhlcvData_columns_witness:
  "truthy (has (exchange (example_module (JBool True) (Inr (JArr (map JArr two_bars)))))
             ''fetchOHLCV'') \<and>
   length two_bars = 2 \<and> length (two_bars ! 0) = 6 \<and> length (two_bars ! 1) = 6 \<and>
   (\<exists>ps. fst (fetchOhlcvData (example_module (JBool True) (Inr (JArr (map JArr two_bars))))
                ''BTC/USDT'' ''1h'' 100 fresh_net) = Inr ps \<and>
      length (dates ps) = 2 \<and> length (openings ps) = 2 \<and> length (highs ps) = 2 \<and>
      length (lows ps) = 2 \<and> length (closings ps) = 2 \<and> length (volumes ps) = 2 \<and>
      dates ps ! 1 = NewDate (JNum (Fin 1700003600000)) \<and>
      openings ps ! 1 = JNum (Fin 11) \<and> highs ps ! 1 = JNum (Fin 13) \<and>
      lows ps ! 1 = JNum (Fin 10) \<and> closings ps ! 1 = JNum (Fin 12) \<and>
      volumes ps ! 1 = JNum (Fin 150))"
proof -
  let ?ms = "example_module (JBool True) (Inr (JArr (map JArr two_bars)))"
  have h1: "truthy (has (exchange ?ms) ''fetchOHLCV'')"
    by (simp add: example_module_def example_exchange_def)
  have h2: "fetchOHLCV (exchange ?ms) (ohlcv_request ''BTC/USDT'' ''1h'' 100) (world fresh_net) =
              (Inr (JArr (map JArr two_bars)), Suc 0)"
    by (simp add: example_module_def example_exchange_def fresh_net_def)
  have h3: "two_bars \<noteq> []" by (simp add: two_bars_def)
  have h4: "\<forall>fs\<in>set two_bars. 6 \<le> length fs" by (simp add: two_bars_def bar_def)
  have len: "length two_bars = 2" by (simp add: two_bars_def)
  from fetchOhlcvData_columns [OF h1 h2 h3 h4] obtain ps where
    ps: "fst (fetchOhlcvData ?ms ''BTC/USDT'' ''1h'' 100 fresh_net) = Inr ps"
      "length (dates ps) = length two_bars" "length (openings ps) = length two_bars"
      "length (highs ps) = length two_bars" "length (lows ps) = length two_bars"
      "length (closings ps) = length two_bars" "length (volumes ps) = length two_bars"
      "\<forall>i<length two_bars.
          dates ps ! i = NewDate (two_bars ! i ! 0) \<and> openings ps ! i = two_bars ! i ! 1 \<and>
          highs ps ! i = two_bars ! i ! 2 \<and> lows ps ! i = two_bars ! i ! 3 \<and>
          closings ps ! i = two_bars ! i ! 4 \<and> volumes ps ! i = two_bars ! i ! 5"
    by blast
  from ps(8) len have
    "dates ps ! 1 = NewDate (two_bars ! 1 ! 0) \<and> openings ps ! 1 = two_bars ! 1 ! 1 \<and>
     highs ps ! 1 = two_bars ! 1 ! 2 \<and> lows ps ! 1 = two_bars ! 1 ! 3 \<and>
     closings ps ! 1 = two_bars ! 1 ! 4 \<and> volumes ps ! 1 = two_bars ! 1 ! 5"
    by simp
  then have "dates ps ! 1 = NewDate (JNum (Fin 1700003600000)) \<and>
      openings ps ! 1 = JNum (Fin 11) \<and> highs ps ! 1 = JNum (Fin 13) \<and>
      lows ps ! 1 = JNum (Fin 10) \<and> closings ps ! 1 = JNum (Fin 12) \<and>
      volumes ps ! 1 = JNum (Fin 150)"
    by (simp add: two_bars_def bar_def)
  moreover have "length (two_bars ! 0) = 6 \<and> length (two_bars ! 1) = 6"
    by (simp add: two_bars_def bar_def)
  ultimately show ?thesis using ps(1-7) len h1 by auto
qed

text \<open>
  C2. Every invocation of \<open>fetchOhlcvData\<close> either returns a price series that satisfies
  the invariant of the data model (six columns of one length, which is at least 1), or
  gives the caller an error and nothing else.
\<close>

theorem fetchOhlcvData_invariant:
  "(\<exists>ps. fst (fetchOhlcvData ms symbol timeframe limit n) = Inr ps \<and> series_invariant ps) \<or>
   (\<exists>m. fst (fetchOhlcvData ms symbol timeframe limit n) = Inl (Error m))"
proof (cases "truthy (has (exchange ms) ''fetchOHLCV'')")
  case False
  then show ?thesis by (simp add: fetch_without_capability)
next
  case True
  obtain out w' where call:
    "fetchOHLCV (exchange ms) (ohlcv_request symbol timeframe limit) (world n) = (out, w')"
    by (cases "fetchOHLCV (exchange ms) (ohlcv_request symbol timeframe limit) (world n)")
  show ?thesis
  proof (cases out)
    case (Inl e)
    then show ?thesis by (simp add: fetch_with_capability [OF True call])
  next
    case (Inr v)
    show ?thesis
    proof (cases "handle_response v")
      case (Inl e)
      with Inr show ?thesis by (simp add: fetch_with_capability [OF True call])
    next
      case inr: (Inr ps)
      then obtain fss where "fss \<noteq> []" "ps = columns fss"
        using handle_response_Inr by blast
      then have "series_invariant ps" by (simp add: series_invariant_columns)
      with Inr inr show ?thesis by (simp add: fetch_with_capability [OF True call])
    qed
  qed
qed

text \<open>
  On the two-bar response the invocation succeeds, and the invariant holds of what it
  returns.
\<close>

theorem fetchOhlcvData_invariant_witness:
  "\<exists>ps. fst (fetchOhlcvData (example_module (JBool True) (Inr (JArr (map JArr two_bars))))
               ''ETH/USDT'' ''1d'' 2 fresh_net) = Inr ps \<and> series_invariant ps"
proof -
  let ?ms = "example_module (JBool True) (Inr (JArr (map JArr two_bars)))"
  have h1: "truthy (has (exchange ?ms) ''fetchOHLCV'')"
    by (simp add: example_module_def example_exchange_def)
  have h2: "fetchOHLCV (exchange ?ms) (ohlcv_request ''ETH/USDT'' ''1d'' 2) (world fresh_net) =
              (Inr (JArr (map JArr two_bars)), Suc 0)"
    by (simp add: example_module_def example_exchange_def fresh_net_def)
  have "handle_response (JArr (map JArr two_bars)) = Inr (columns two_bars)"
    by (rule handle_response_arrays) (simp_all add: two_bars_def bar_def)
  then have "fst (fetchOhlcvData ?ms ''ETH/USDT'' ''1d'' 2 fresh_net) = Inr (columns two_bars)"
    by (simp add: fetch_with_capability [OF h1 h2])
  with fetchOhlcvData_invariant [of ?ms "''ETH/USDT''" "''1d''" 2 fresh_net]
  show ?thesis by simp
qed

text \<open>
  C4. When the rows before index \<open>k\<close> are arrays of at least six fields and row \<open>k\<close> is
  an array of fewer than six, \<open>fetchOhlcvData\<close> fails and the message of its error names
  the index \<open>k\<close> of that first short row. The rows after \<open>k\<close> are not looked at.
\<close>

theorem fetchOhlcvData_short_row:
  assumes "truthy (has (exchange ms) ''fetchOHLCV'')"
    and "fetchOHLCV (exchange ms) (ohlcv_request symbol timeframe limit) (world n) =
           (Inr (JArr rows), w')"
    and "k < length rows"
    and "rows ! k = JArr fs"
    and "length fs < 6"
    and "\<forall>j<k. \<exists>gs. rows ! j = JArr gs \<and> 6 \<le> length gs"
  shows "fst (fetchOhlcvData ms symbol timeframe limit n) =
           Inl (Error (''Failed to fetch OHLCV data: Malformed OHLCV row at index '' @
                       string_of_nat k @ '': expected 6 values''))"
proof -
  from assms(3) have ne: "rows \<noteq> []" by auto
  from assms(4,5) have bad: "malformed_row (rows ! k)" by simp
  from assms(6) have "\<forall>j. 0 \<le> j \<and> j < k \<longrightarrow> \<not> malformed_row (rows ! j)"
    by (auto simp: not_malformed_row)
  with assms(3) bad have "check_rows rows 0 =
      Inl (Error (''Malformed OHLCV row at index '' @ string_of_nat k @ '': expected 6 values''))"
    by (intro check_rows_first_bad) simp_all
  with ne have "handle_response (JArr rows) =
      Inl (Error (''Malformed OHLCV row at index '' @ string_of_nat k @ '': expected 6 values''))"
    by (simp add: handle_response_def)
  then show ?thesis by (simp add: fetch_with_capability [OF assms(1,2)])
qed

text \<open>
  Five rows of which row 3 has four fields: the message refers to index 3.
\<close>

theorem fetchOhlcvData_short_row_witness:
  "truthy (has (exchange (example_module (JBool True) (Inr (JArr short_row_response))))
             ''fetchOHLCV'') \<and>
   3 < length short_row_response \<and>
   short_row_response ! 3 = JArr [JNum (Fin 4), JNum (Fin 13), JNum (Fin 15), JNum (Fin 12)] \<and>
   short_row_response ! 0 = JArr (bar 1 10 12 9 11 100) \<and>
   short_row_response ! 1 = JArr (bar 2 11 13 10 12 150) \<and>
   short_row_response ! 2 = JArr (bar 3 12 14 11 13 90) \<and>
   length (bar 1 10 12 9 11 100) = 6 \<and> length (bar 2 11 13 10 12 150) = 6 \<and>
   length (bar 3 12 14 11 13 90) = 6 \<and>
   fst (fetchOhlcvData (example_module (JBool True) (Inr (JArr short_row_response)))
          ''BTC/USDT'' ''1h'' 5 fresh_net) =
     Inl (Error ''Failed to fetch OHLCV data: Malformed OHLCV row at index 3: expected 6 values'')"
proof -
  let ?ms = "example_module (JBool True) (Inr (JArr short_row_response))"
  let ?fs = "[JNum (Fin 4), JNum (Fin 13), JNum (Fin 15), JNum (Fin 12)]"
  have h1: "truthy (has (exchange ?ms) ''fetchOHLCV'')"
    by (simp add: example_module_def example_exchange_def)
  have h2: "fetchOHLCV (exchange ?ms) (ohlcv_request ''BTC/USDT'' ''1h'' 5) (world fresh_net) =
              (Inr (JArr short_row_response), Suc 0)"
    by (simp add: example_module_def example_exchange_def fresh_net_def)
  have h3: "3 < length short_row_response" by (simp add: short_row_response_def)
  have h4: "short_row_response ! 3 = JArr ?fs" by (simp add: short_row_response_def)
  have h5: "length ?fs < 6" by simp
  have h6: "\<forall>j<3. \<exists>gs. short_row_response ! j = JArr gs \<and> 6 \<le> length gs"
    by (simp add: short_row_response_def bar_def All_less_Suc numeral_3_eq_3)
  have d: "string_of_nat 3 = ''3''" by (simp add: string_of_nat.simps)
  have rows: "short_row_response ! 0 = JArr (bar 1 10 12 9 11 100) \<and>
      short_row_response ! 1 = JArr (bar 2 11 13 10 12 150) \<and>
      short_row_response ! 2 = JArr (bar 3 12 14 11 13 90) \<and>
      length (bar 1 10 12 9 11 100) = 6 \<and> length (bar 2 11 13 10 12 150) = 6 \<and>
      length (bar 3 12 14 11 13 90) = 6"
    by (simp add: short_row_response_def bar_def)
  from fetchOhlcvData_short_row [OF h1 h2 h3 h4 h5 h6]
  have "fst (fetchOhlcvData ?ms ''BTC/USDT'' ''1h'' 5 fresh_net) =
          Inl (Error ''Failed to fetch OHLCV data: Malformed OHLCV row at index 3: expected 6 values'')"
    by (simp add: d)
  with h1 h3 h4 rows show ?thesis by blast
qed

section \<open>Claims on failures and on module initialisation\<close>

text \<open>
  C3. Whatever makes an invocation fail, the caller gets one \<open>Error\<close> whose message is
  \<open>"Failed to fetch OHLCV data: "\<close> followed by the message of the original failure. An
  error with which the provider call rejects surfaces so; and every error that surfaces
  wraps one of: the capability message naming the provider, the message of the provider's
  own error, the no-data message for a response that is empty or not an array, or the
  malformed-row message with the index of a row that is not an array of six fields.
\<close>

theorem fetchOhlcvData_error_message:
  "(truthy (has (exchange ms) ''fetchOHLCV'') \<and>
    fst (fetchOHLCV (exchange ms) (ohlcv_request symbol timeframe limit) (world n)) = Inl e \<longrightarrow>
    fst (fetchOhlcvData ms symbol timeframe limit n) =
      Inl (Error (''Failed to fetch OHLCV data: '' @ message e))) \<and>
   (fst (fetchOhlcvData ms symbol timeframe limit n) = Inl err \<longrightarrow>
    (\<exists>m. err = Error (''Failed to fetch OHLCV data: '' @ m) \<and>
       (if \<not> truthy (has (exchange ms) ''fetchOHLCV'')
        then m = exid ms @ '' does not support fetchOHLCV''
        else (case fst (fetchOHLCV (exchange ms) (ohlcv_request symbol timeframe limit)
                          (world n)) of
                Inl e' \<Rightarrow> m = message e'
              | Inr v \<Rightarrow>
                  (m = ''No OHLCV data returned from exchange'' \<and>
                   (\<not> isArray v \<or> v = JArr [])) \<or>
                  (\<exists>rows k. v = JArr rows \<and> k < length rows \<and> malformed_row (rows ! k) \<and>
                     m = ''Malformed OHLCV row at index '' @ string_of_nat k @
                         '': expected 6 values'')))))"
proof (cases "truthy (has (exchange ms) ''fetchOHLCV'')")
  case False
  then show ?thesis by (auto simp: fetch_without_capability)
next
  case True
  obtain out w' where call:
    "fetchOHLCV (exchange ms) (ohlcv_request symbol timeframe limit) (world n) = (out, w')"
    by (cases "fetchOHLCV (exchange ms) (ohlcv_request symbol timeframe limit) (world n)")
  note fetch = fetch_with_capability [OF True call]
  show ?thesis
  proof (cases out)
    case (Inl e0)
    with True call show ?thesis by (auto simp: fetch)
  next
    case (Inr v)
    show ?thesis
    proof (cases "handle_response v")
      case (Inl e0)
      from handle_response_Inl [OF Inl]
      have kind: "(message e0 = ''No OHLCV data returned from exchange'' \<and>
              (\<not> isArray v \<or> v = JArr [])) \<or>
            (\<exists>rows k. v = JArr rows \<and> k < length rows \<and> malformed_row (rows ! k) \<and>
               message e0 = ''Malformed OHLCV row at index '' @ string_of_nat k @
                            '': expected 6 values'')"
        by auto
      have res: "fst (fetchOhlcvData ms symbol timeframe limit n) =
                   Inl (Error (''Failed to fetch OHLCV data: '' @ message e0))"
        using Inr Inl by (simp add: fetch)
      have out: "fst (fetchOHLCV (exchange ms) (ohlcv_request symbol timeframe limit)
                        (world n)) = Inr v"
        using call Inr by simp
      show ?thesis
      proof (intro conjI impI)
        assume "truthy (has (exchange ms) ''fetchOHLCV'') \<and>
                fst (fetchOHLCV (exchange ms) (ohlcv_request symbol timeframe limit)
                       (world n)) = Inl e"
        with out show "fst (fetchOhlcvData ms symbol timeframe limit n) =
                         Inl (Error (''Failed to fetch OHLCV data: '' @ message e))"
          by simp
      next
        assume "fst (fetchOhlcvData ms symbol timeframe limit n) = Inl err"
        with res have err: "err = Error (''Failed to fetch OHLCV data: '' @ message e0)"
          by simp
        show "\<exists>m. err = Error (''Failed to fetch OHLCV data: '' @ m) \<and>
               (if \<not> truthy (has (exchange ms) ''fetchOHLCV'')
                then m = exid ms @ '' does not support fetchOHLCV''
                else (case fst (fetchOHLCV (exchange ms)
                                  (ohlcv_request symbol timeframe limit) (world n)) of
                        Inl e' \<Rightarrow> m = message e'
                      | Inr v \<Rightarrow>
                          (m = ''No OHLCV data returned from exchange'' \<and>
                           (\<not> isArray v \<or> v = JArr [])) \<or>
                          (\<exists>rows k. v = JArr rows \<and> k < length rows \<and>
                             malformed_row (rows ! k) \<and>
                             m = ''Malformed OHLCV row at index '' @ string_of_nat k @
                                 '': expected 6 values'')))"
        proof (intro exI [of _ "message e0"] conjI)
          show "err = Error (''Failed to fetch OHLCV data: '' @ message e0)" by (fact err)
          have "(message e0 = ''No OHLCV data returned from exchange'' \<and>
                           (\<not> isArray v \<or> v = JArr [])) \<or>
                          (\<exists>rows k. v = JArr rows \<and> k < length rows \<and>
                             malformed_row (rows ! k) \<and>
                             message e0 = ''Malformed OHLCV row at index '' @ string_of_nat k @
                                 '': expected 6 values'')"
            by (fact kind)
          then show "if \<not> truthy (has (exchange ms) ''fetchOHLCV'')
                then message e0 = exid ms @ '' does not support fetchOHLCV''
                else (case fst (fetchOHLCV (exchange ms)
                                  (ohlcv_request symbol timeframe limit) (world n)) of
                        Inl e' \<Rightarrow> message e0 = message e'
                      | Inr v \<Rightarrow>
                          (message e0 = ''No OHLCV data returned from exchange'' \<and>
                           (\<not> isArray v \<or> v = JArr [])) \<or>
                          (\<exists>rows k. v = JArr rows \<and> k < length rows \<and>
                             malformed_row (rows ! k) \<and>
                             message e0 = ''Malformed OHLCV row at index '' @ string_of_nat k @
                                 '': expected 6 values''))"
            by (simp only: True out not_True_eq_False if_False sum.case)
        qed
      qed
    next
      case inr: (Inr ps)
      with True call Inr show ?thesis by (simp add: fetch)
    qed
  qed
qed


text \<open>
  A provider that rejects with \<open>Error("Network timeout")\<close>.
\<close>

theorem fetchOhlcvData_error_message_witness:
  "truthy (has (exchange (example_module (JBool True) (Inl (Error ''Network timeout''))))
             ''fetchOHLCV'') \<and>
   fst (fetchOHLCV (exchange (example_module (JBool True) (Inl (Error ''Network timeout''))))
          (ohlcv_request ''BTC/USDT'' ''1h'' 100) (world fresh_net)) =
     Inl (Error ''Network timeout'') \<and>
   fst (fetchOhlcvData (example_module (JBool True) (Inl (Error ''Network timeout'')))
          ''BTC/USDT'' ''1h'' 100 fresh_net) =
     Inl (Error ''Failed to fetch OHLCV data: Network timeout'') \<and>
   (\<exists>m. Error ''Failed to fetch OHLCV data: Network timeout'' =
          Error (''Failed to fetch OHLCV data: '' @ m) \<and> m = ''Network timeout'')"
proof -
  let ?ms = "example_module (JBool True) (Inl (Error ''Network timeout''))"
  let ?err = "Error ''Failed to fetch OHLCV data: Network timeout''"
  note inst = fetchOhlcvData_error_message
    [of ?ms "''BTC/USDT''" "''1h''" 100 fresh_net "Error ''Network timeout''" ?err]
  have h1: "truthy (has (exchange ?ms) ''fetchOHLCV'')"
    by (simp add: example_module_def example_exchange_def)
  have h2: "fst (fetchOHLCV (exchange ?ms) (ohlcv_request ''BTC/USDT'' ''1h'' 100)
                   (world fresh_net)) = Inl (Error ''Network timeout'')"
    by (simp add: example_module_def example_exchange_def)
  from inst [THEN conjunct1] h1 h2
  have "fst (fetchOhlcvData ?ms ''BTC/USDT'' ''1h'' 100 fresh_net) =
          Inl (Error (''Failed to fetch OHLCV data: '' @ message (Error ''Network timeout'')))"
    by blast
  then have r: "fst (fetchOhlcvData ?ms ''BTC/USDT'' ''1h'' 100 fresh_net) = Inl ?err"
    by simp
  from inst [THEN conjunct2] r obtain m where
    m: "?err = Error (''Failed to fetch OHLCV data: '' @ m)"
    by blast
  then have "m = ''Network timeout''" by simp
  with m have "\<exists>m. ?err = Error (''Failed to fetch OHLCV data: '' @ m) \<and> m = ''Network timeout''"
    by blast
  with h1 h2 r show ?thesis by blast
qed

text \<open>
  C5. When the provider resolves with an empty array, or with a value that is not an array,
  \<open>fetchOhlcvData\<close> fails with the no-data error; what the caller gets is the error alone.
\<close>

theorem fetchOhlcvData_no_rows:
  assumes "truthy (has (exchange ms) ''fetchOHLCV'')"
    and "fetchOHLCV (exchange ms) (ohlcv_request symbol timeframe limit) (world n) = (Inr v, w')"
    and "\<not> isArray v \<or> v = JArr []"
  shows "fst (fetchOhlcvData ms symbol timeframe limit n) =
           Inl (Error ''Failed to fetch OHLCV data: No OHLCV data returned from exchange'')"
proof -
  from assms(3) have "handle_response v = Inl (Error ''No OHLCV data returned from exchange'')"
    by (cases v) (auto simp: handle_response_def)
  then show ?thesis by (simp add: fetch_with_capability [OF assms(1,2)])
qed

text \<open>
  The empty array and \<open>null\<close> as responses.
\<close>

theorem fetchOhlcvData_no_rows_witness:
  "fst (fetchOhlcvData (example_module (JBool True) (Inr (JArr []))) ''BTC/USDT'' ''1h'' 100
          fresh_net) =
     Inl (Error ''Failed to fetch OHLCV data: No OHLCV data returned from exchange'') \<and>
   fst (fetchOhlcvData (example_module (JBool True) (Inr JNull)) ''BTC/USDT'' ''1h'' 100
          fresh_net) =
     Inl (Error ''Failed to fetch OHLCV data: No OHLCV data returned from exchange'')"
proof -
  have h1: "truthy (has (exchange (example_module (JBool True) out)) ''fetchOHLCV'')" for out
    by (simp add: example_module_def example_exchange_def)
  have h2: "fetchOHLCV (exchange (example_module (JBool True) (Inr v)))
              (ohlcv_request ''BTC/USDT'' ''1h'' 100) (world fresh_net) = (Inr v, Suc 0)" for v
    by (simp add: example_module_def example_exchange_def fresh_net_def)
  have "\<not> isArray (JArr []) \<or> JArr [] = JArr []" and "\<not> isArray JNull \<or> JNull = JArr []"
    by simp_all
  then show ?thesis
    using fetchOhlcvData_no_rows [OF h1 h2 [of "JArr []"]]
      fetchOhlcvData_no_rows [OF h1 h2 [of JNull]]
    by simp
qed

text \<open>
  C6. When \<open>exchange.has["fetchOHLCV"]\<close> is falsy (\<open>false\<close> in particular), the
  invocation fails with the capability error naming the provider, and the network is left
  as it was: no request is added to those issued and the provider's state is untouched.
\<close>

theorem fetchOhlcvData_unsupported:
  assumes "\<not> truthy (has (exchange ms) ''fetchOHLCV'')"
  shows "fetchOhlcvData ms symbol timeframe limit n =
           (Inl (Error (''Failed to fetch OHLCV data: '' @ exid ms @
                        '' does not support fetchOHLCV'')), n)"
  using assms by (simp add: fetchOhlcvData_def try_block_def)

text \<open>
  A provider declaring \<open>false\<close>: the request log stays empty.
\<close>

theorem fetchOhlcvData_unsupported_witness:
  "\<not> truthy (has (exchange (example_module (JBool False) (Inr (JArr (map JArr two_bars)))))
               ''fetchOHLCV'') \<and>
   fetchOhlcvData (example_module (JBool False) (Inr (JArr (map JArr two_bars))))
       ''BTC/USDT'' ''1h'' 100 fresh_net =
     (Inl (Error ''Failed to fetch OHLCV data: binance does not support fetchOHLCV''),
      \<lparr>world = 0, requests = []\<rparr>)"
proof -
  let ?ms = "example_module (JBool False) (Inr (JArr (map JArr two_bars)))"
  have h: "\<not> truthy (has (exchange ?ms) ''fetchOHLCV'')"
    by (simp add: example_module_def example_exchange_def)
  have "exid ?ms = ''binance''" by (simp add: example_module_def)
  with fetchOhlcvData_unsupported [OF h, of "''BTC/USDT''" "''1h''" 100 fresh_net] h
  show ?thesis by (simp add: fresh_net_def)
qed

text \<open>
  C7. When the provider identifier in force is not in \<open>ALLOWED_EXCHANGES\<close>, loading the
  module throws an \<open>Error\<close> whose message quotes that identifier and lists the ten allowed
  ones, and no client constructor is called.
\<close>

theorem load_module_unsupported:
  assumes "exid_of_env env \<notin> set ALLOWED_EXCHANGES"
  shows "load_module ccxt env =
           (Inl (Error (''Unsupported exchange: '' @ [CHR 34] @ exid_of_env env @ [CHR 34] @
                        ''. Allowed: binance, kraken, coinbase, bybit, okx, '' @
                        ''kucoin, gate, huobi, bitfinex, mexc'')), [])"
proof -
  have "join '', '' ALLOWED_EXCHANGES =
          ''binance, kraken, coinbase, bybit, okx, kucoin, gate, huobi, bitfinex, mexc''"
    by (simp add: ALLOWED_EXCHANGES_def)
  with assms show ?thesis by (simp add: load_module_def Let_def)
qed

text \<open>
  \<open>EXCHANGE_NAME=not-a-real-exchange\<close>.
\<close>

theorem load_module_unsupported_witness:
  "exid_of_env (Some ''not-a-real-exchange'') \<notin> set ALLOWED_EXCHANGES \<and>
   load_module example_ccxt (Some ''not-a-real-exchange'') =
     (Inl (Error (''Unsupported exchange: '' @ [CHR 34] @ ''not-a-real-exchange'' @ [CHR 34] @
                  ''. Allowed: binance, kraken, coinbase, bybit, okx, '' @
                  ''kucoin, gate, huobi, bitfinex, mexc'')), [])"
proof -
  have x: "exid_of_env (Some ''not-a-real-exchange'') = ''not-a-real-exchange''"
    by (simp add: exid_of_env_def)
  have h: "exid_of_env (Some ''not-a-real-exchange'') \<notin> set ALLOWED_EXCHANGES"
    by (simp add: x ALLOWED_EXCHANGES_def)
  from load_module_unsupported [OF h, of example_ccxt] h show ?thesis by (simp add: x)
qed

section \<open>The requests issued\<close>

text \<open>
  C8 as stated fails: under a provider that does not declare \<open>fetchOHLCV\<close> the invocation
  returns without having issued any request, so it is not the case that every invocation
  issues exactly one.
\<close>

theorem fetchOhlcvData_one_request_counterexample:
  "requests (snd (fetchOhlcvData (example_module (JBool False) (Inr (JArr (map JArr two_bars))))
                    ''BTC/USDT'' ''1h'' 100 fresh_net)) = requests fresh_net \<and>
   length (requests (snd (fetchOhlcvData
                            (example_module (JBool False) (Inr (JArr (map JArr two_bars))))
                            ''BTC/USDT'' ''1h'' 100 fresh_net))) \<noteq>
     length (requests fresh_net) + 1"
proof -
  have "\<not> truthy (has (exchange (example_module (JBool False)
                                    (Inr (JArr (map JArr two_bars))))) ''fetchOHLCV'')"
    by (simp add: example_module_def example_exchange_def)
  then have "snd (fetchOhlcvData (example_module (JBool False) (Inr (JArr (map JArr two_bars))))
                    ''BTC/USDT'' ''1h'' 100 fresh_net) = fresh_net"
    by (simp add: fetch_without_capability)
  then show ?thesis by simp
qed

text \<open>
  C8, amended. An invocation under a provider that declares \<open>fetchOHLCV\<close> issues exactly
  one request, the call \<open>exchange.fetchOHLCV(symbol, timeframe, undefined, limit)\<close>, and
  under a provider that does not declare it, none; there is no retry, also when the call
  rejects. The only state it leaves behind is the provider's own. Its result depends only
  on its arguments and on how that single call settled: two invocations with the same
  arguments whose provider calls settle alike return the same, whatever the provider, its
  state and the requests issued before.
\<close>

theorem fetchOhlcvData_requests:
  "requests (snd (fetchOhlcvData ms symbol timeframe limit n)) =
     (if truthy (has (exchange ms) ''fetchOHLCV'')
      then requests n @ [ohlcv_request symbol timeframe limit]
      else requests n) \<and>
   world (snd (fetchOhlcvData ms symbol timeframe limit n)) =
     (if truthy (has (exchange ms) ''fetchOHLCV'')
      then snd (fetchOHLCV (exchange ms) (ohlcv_request symbol timeframe limit) (world n))
      else world n) \<and>
   (truthy (has (exchange ms) ''fetchOHLCV'') \<and>
    truthy (has (exchange ms') ''fetchOHLCV'') \<and>
    fst (fetchOHLCV (exchange ms) (ohlcv_request symbol timeframe limit) (world n)) =
      fst (fetchOHLCV (exchange ms') (ohlcv_request symbol timeframe limit) (world n')) \<longrightarrow>
    fst (fetchOhlcvData ms symbol timeframe limit n) =
      fst (fetchOhlcvData ms' symbol timeframe limit n'))"
proof (cases "truthy (has (exchange ms) ''fetchOHLCV'')")
  case False
  then show ?thesis by (simp add: fetch_without_capability)
next
  case True
  obtain out w where call:
    "fetchOHLCV (exchange ms) (ohlcv_request symbol timeframe limit) (world n) = (out, w)"
    by (cases "fetchOHLCV (exchange ms) (ohlcv_request symbol timeframe limit) (world n)")
  note fetch = fetch_with_capability [OF True call]
  have log: "requests (snd (fetchOhlcvData ms symbol timeframe limit n)) =
               requests n @ [ohlcv_request symbol timeframe limit]"
    and st: "world (snd (fetchOhlcvData ms symbol timeframe limit n)) = w"
    by (simp_all add: fetch)
  have same: "fst (fetchOhlcvData ms symbol timeframe limit n) =
                fst (fetchOhlcvData ms' symbol timeframe limit n')"
    if sup: "truthy (has (exchange ms') ''fetchOHLCV'')"
      and eq: "fst (fetchOHLCV (exchange ms) (ohlcv_request symbol timeframe limit) (world n)) =
                 fst (fetchOHLCV (exchange ms') (ohlcv_request symbol timeframe limit) (world n'))"
  proof -
    obtain out' w' where call':
      "fetchOHLCV (exchange ms') (ohlcv_request symbol timeframe limit) (world n') = (out', w')"
      by (cases "fetchOHLCV (exchange ms') (ohlcv_request symbol timeframe limit) (world n')")
    from eq call call' have "out' = out" by simp
    then show ?thesis
      by (simp add: fetch fetch_with_capability [OF sup call'])
  qed
  from True log st same call show ?thesis by simp
qed

text \<open>
  Two providers in different states rejecting alike: one request, and the same result.
\<close>

theorem fetchOhlcvData_requests_witness:
  "truthy (has (exchange (example_module (JBool True) (Inl (Error ''Rate limit exceeded''))))
             ''fetchOHLCV'') \<and>
   truthy (has (exchange (example_module (JStr ''emulated'') (Inl (Error ''Rate limit exceeded''))))
             ''fetchOHLCV'') \<and>
   requests (snd (fetchOhlcvData (example_module (JBool True) (Inl (Error ''Rate limit exceeded'')))
                    ''BTC/USDT'' ''1h'' 100 fresh_net)) =
     [ohlcv_request ''BTC/USDT'' ''1h'' 100] \<and>
   world (snd (fetchOhlcvData (example_module (JBool True) (Inl (Error ''Rate limit exceeded'')))
                 ''BTC/USDT'' ''1h'' 100 fresh_net)) = 1 \<and>
   fst (fetchOhlcvData (example_module (JBool True) (Inl (Error ''Rate limit exceeded'')))
          ''BTC/USDT'' ''1h'' 100 fresh_net) =
     fst (fetchOhlcvData (example_module (JStr ''emulated'') (Inl (Error ''Rate limit exceeded'')))
            ''BTC/USDT'' ''1h'' 100 \<lparr>world = 7, requests = []\<rparr>)"
proof -
  let ?ms = "example_module (JBool True) (Inl (Error ''Rate limit exceeded''))"
  let ?ms' = "example_module (JStr ''emulated'') (Inl (Error ''Rate limit exceeded''))"
  let ?n' = "\<lparr>world = 7, requests = []\<rparr> :: nat net"
  note inst = fetchOhlcvData_requests [of ?ms "''BTC/USDT''" "''1h''" 100 fresh_net ?ms' ?n']
  have h1: "truthy (has (exchange ?ms) ''fetchOHLCV'')"
    and h2: "truthy (has (exchange ?ms') ''fetchOHLCV'')"
    by (simp_all add: example_module_def example_exchange_def)
  have c: "fetchOHLCV (exchange ?ms) (ohlcv_request ''BTC/USDT'' ''1h'' 100) (world fresh_net) =
             (Inl (Error ''Rate limit exceeded''), 1)"
    and c': "fetchOHLCV (exchange ?ms') (ohlcv_request ''BTC/USDT'' ''1h'' 100) (world ?n') =
             (Inl (Error ''Rate limit exceeded''), 8)"
    by (simp_all add: example_module_def example_exchange_def fresh_net_def)
  from inst [THEN conjunct1] h1
  have r1: "requests (snd (fetchOhlcvData ?ms ''BTC/USDT'' ''1h'' 100 fresh_net)) =
              [ohlcv_request ''BTC/USDT'' ''1h'' 100]"
    by (simp add: fresh_net_def)
  from inst [THEN conjunct2, THEN conjunct1] h1 c
  have r2: "world (snd (fetchOhlcvData ?ms ''BTC/USDT'' ''1h'' 100 fresh_net)) = 1"
    by simp
  from c c' have "fst (fetchOHLCV (exchange ?ms) (ohlcv_request ''BTC/USDT'' ''1h'' 100)
                         (world fresh_net)) =
                  fst (fetchOHLCV (exchange ?ms') (ohlcv_request ''BTC/USDT'' ''1h'' 100)
                         (world ?n'))"
    by simp
  with inst [THEN conjunct2, THEN conjunct2] h1 h2
  have r3: "fst (fetchOhlcvData ?ms ''BTC/USDT'' ''1h'' 100 fresh_net) =
              fst (fetchOhlcvData ?ms' ''BTC/USDT'' ''1h'' 100 ?n')"
    by blast
  from h1 h2 r1 r2 r3 show ?thesis by blast
qed

section \<open>Tool handlers and the default provider\<close>

lemma tool_handler_fetch_error:
  "fst (fetchOhlcvData ms symbol timeframe limit n) = Inl e \<Longrightarrow>
   fst (tool_handler ms indicator stringify symbol timeframe limit n) =
     ToolResult [TextContent (''Error: '' @ message e)]"
  by (cases "fetchOhlcvData ms symbol timeframe limit n")
     (simp add: tool_handler_def handler_try_def)

lemma tool_handler_indicator_error:
  "fst (fetchOhlcvData ms symbol timeframe limit n) = Inr asset \<Longrightarrow>
   indicator asset = Inl e \<Longrightarrow>
   fst (tool_handler ms indicator stringify symbol timeframe limit n) =
     ToolResult [TextContent (''Error: '' @ message e)]"
  by (cases "fetchOhlcvData ms symbol timeframe limit n")
     (simp add: tool_handler_def handler_try_def)

lemma tool_handler_stringify_error:
  "fst (fetchOhlcvData ms symbol timeframe limit n) = Inr asset \<Longrightarrow>
   indicator asset = Inr result \<Longrightarrow> stringify result = Inl e \<Longrightarrow>
   fst (tool_handler ms indicator stringify symbol timeframe limit n) =
     ToolResult [TextContent (''Error: '' @ message e)]"
  by (cases "fetchOhlcvData ms symbol timeframe limit n")
     (simp add: tool_handler_def handler_try_def)

text \<open>
  C9. A tool handler never throws: whatever error is raised inside its try block, it returns
  the one-item text payload whose text is \<open>"Error: "\<close> followed by that error's message.
  This is so for an error from \<open>fetchOhlcvData\<close>, from the indicator computation and from
  the serialiser, for the handler body in general and for the three handlers
  \<open>calculate_awesome_oscillator\<close>, \<open>calculate_acceleration_bands_strategy\<close> and
  \<open>calculate_momentum_strategy\<close>.
\<close>

theorem tool_handler_error_text:
  "(handler_try ms indicator stringify symbol timeframe limit n = (Inl e, n') \<longrightarrow>
      tool_handler ms indicator stringify symbol timeframe limit n =
        (ToolResult [TextContent (''Error: '' @ message e)], n')) \<and>
   (fst (fetchOhlcvData ms symbol timeframe limit n) = Inl e \<longrightarrow>
      fst (tool_handler ms indicator stringify symbol timeframe limit n) =
        ToolResult [TextContent (''Error: '' @ message e)] \<and>
      fst (calculate_awesome_oscillator ms awesomeOscillator stringify
             symbol timeframe fastPeriod slowPeriod limit n) =
        ToolResult [TextContent (''Error: '' @ message e)] \<and>
      fst (calculate_acceleration_bands_strategy ms accelerationBandsStrategy stringify
             symbol timeframe period limit n) =
        ToolResult [TextContent (''Error: '' @ message e)] \<and>
      fst (calculate_momentum_strategy ms momentumStrategy stringify
             symbol timeframe period limit n) =
        ToolResult [TextContent (''Error: '' @ message e)]) \<and>
   (fst (fetchOhlcvData ms symbol timeframe limit n) = Inr asset \<longrightarrow>
      (indicator asset = Inl e \<longrightarrow>
         fst (tool_handler ms indicator stringify symbol timeframe limit n) =
           ToolResult [TextContent (''Error: '' @ message e)]) \<and>
      (indicator asset = Inr result \<and> stringify result = Inl e \<longrightarrow>
         fst (tool_handler ms indicator stringify symbol timeframe limit n) =
           ToolResult [TextContent (''Error: '' @ message e)]) \<and>
      (awesomeOscillator (highs asset) (lows asset) fastPeriod slowPeriod = Inl e \<longrightarrow>
         fst (calculate_awesome_oscillator ms awesomeOscillator stringify
                symbol timeframe fastPeriod slowPeriod limit n) =
           ToolResult [TextContent (''Error: '' @ message e)]) \<and>
      (accelerationBandsStrategy asset period = Inl e \<longrightarrow>
         fst (calculate_acceleration_bands_strategy ms accelerationBandsStrategy stringify
                symbol timeframe period limit n) =
           ToolResult [TextContent (''Error: '' @ message e)]) \<and>
      (momentumStrategy asset period = Inl e \<longrightarrow>
         fst (calculate_momentum_strategy ms momentumStrategy stringify
                symbol timeframe period limit n) =
           ToolResult [TextContent (''Error: '' @ message e)]))"
proof (intro conjI impI)
  assume "handler_try ms indicator stringify symbol timeframe limit n = (Inl e, n')"
  then show "tool_handler ms indicator stringify symbol timeframe limit n =
               (ToolResult [TextContent (''Error: '' @ message e)], n')"
    by (simp add: tool_handler_def)
next
  assume f: "fst (fetchOhlcvData ms symbol timeframe limit n) = Inl e"
  from f show "fst (tool_handler ms indicator stringify symbol timeframe limit n) =
                 ToolResult [TextContent (''Error: '' @ message e)]"
    by (rule tool_handler_fetch_error)
  from f show "fst (calculate_awesome_oscillator ms awesomeOscillator stringify
                      symbol timeframe fastPeriod slowPeriod limit n) =
                 ToolResult [TextContent (''Error: '' @ message e)]"
    unfolding calculate_awesome_oscillator_def by (rule tool_handler_fetch_error)
  from f show "fst (calculate_acceleration_bands_strategy ms accelerationBandsStrategy stringify
                      symbol timeframe period limit n) =
                 ToolResult [TextContent (''Error: '' @ message e)]"
    unfolding calculate_acceleration_bands_strategy_def by (rule tool_handler_fetch_error)
  from f show "fst (calculate_momentum_strategy ms momentumStrategy stringify
                      symbol timeframe period limit n) =
                 ToolResult [TextContent (''Error: '' @ message e)]"
    unfolding calculate_momentum_strategy_def by (rule tool_handler_fetch_error)
next
  assume "fst (fetchOhlcvData ms symbol timeframe limit n) = Inr asset"
    and "indicator asset = Inl e"
  then show "fst (tool_handler ms indicator stringify symbol timeframe limit n) =
               ToolResult [TextContent (''Error: '' @ message e)]"
    by (rule tool_handler_indicator_error)
next
  assume a: "fst (fetchOhlcvData ms symbol timeframe limit n) = Inr asset"
    and b: "indicator asset = Inr result \<and> stringify result = Inl e"
  from a b [THEN conjunct1] b [THEN conjunct2]
  show "fst (tool_handler ms indicator stringify symbol timeframe limit n) =
               ToolResult [TextContent (''Error: '' @ message e)]"
    by (rule tool_handler_stringify_error)
next
  assume "fst (fetchOhlcvData ms symbol timeframe limit n) = Inr asset"
    and "awesomeOscillator (highs asset) (lows asset) fastPeriod slowPeriod = Inl e"
  then show "fst (calculate_awesome_oscillator ms awesomeOscillator stringify
                    symbol timeframe fastPeriod slowPeriod limit n) =
               ToolResult [TextContent (''Error: '' @ message e)]"
    unfolding calculate_awesome_oscillator_def by (rule tool_handler_indicator_error)
next
  assume "fst (fetchOhlcvData ms symbol timeframe limit n) = Inr asset"
    and "accelerationBandsStrategy asset period = Inl e"
  then show "fst (calculate_acceleration_bands_strategy ms accelerationBandsStrategy stringify
                    symbol timeframe period limit n) =
               ToolResult [TextContent (''Error: '' @ message e)]"
    unfolding calculate_acceleration_bands_strategy_def by (rule tool_handler_indicator_error)
next
  assume "fst (fetchOhlcvData ms symbol timeframe limit n) = Inr asset"
    and "momentumStrategy asset period = Inl e"
  then show "fst (calculate_momentum_strategy ms momentumStrategy stringify
                    symbol timeframe period limit n) =
               ToolResult [TextContent (''Error: '' @ message e)]"
    unfolding calculate_momentum_strategy_def by (rule tool_handler_indicator_error)
qed


text \<open>
  A fetch that fails on the capability check, an indicator that throws, and a serialiser
  that throws.
\<close>

theorem tool_handler_error_text_witness:
  "handler_try (example_module (JBool False) (Inr (JArr (map JArr two_bars))))
       (\<lambda>asset. Inr (closings asset)) (\<lambda>r. Inr ''[]'') ''BTC/USDT'' ''1h'' 100 fresh_net =
     (Inl (Error ''Failed to fetch OHLCV data: binance does not support fetchOHLCV''),
      fresh_net) \<and>
   tool_handler (example_module (JBool False) (Inr (JArr (map JArr two_bars))))
       (\<lambda>asset. Inr (closings asset)) (\<lambda>r. Inr ''[]'') ''BTC/USDT'' ''1h'' 100 fresh_net =
     (ToolResult [TextContent
        ''Error: Failed to fetch OHLCV data: binance does not support fetchOHLCV''],
      fresh_net) \<and>
   fst (calculate_awesome_oscillator
          (example_module (JBool False) (Inr (JArr (map JArr two_bars))))
          (\<lambda>hs ls fast slow. Inr hs) (\<lambda>r. Inr ''[]'') ''BTC/USDT'' ''1h'' 5 34 100 fresh_net) =
     ToolResult [TextContent
       ''Error: Failed to fetch OHLCV data: binance does not support fetchOHLCV''] \<and>
   fst (calculate_momentum_strategy
          (example_module (JBool True) (Inr (JArr (map JArr two_bars))))
          (\<lambda>asset period. Inl (Error ''Invalid period'')) (\<lambda>r::jsval list. Inr ''[]'')
          ''BTC/USDT'' ''1h'' 14 100 fresh_net) =
     ToolResult [TextContent ''Error: Invalid period''] \<and>
   fst (tool_handler (example_module (JBool True) (Inr (JArr (map JArr two_bars))))
          (\<lambda>asset. Inr (closings asset))
          (\<lambda>r. Inl (TypeError ''Converting circular structure to JSON''))
          ''BTC/USDT'' ''1h'' 100 fresh_net) =
     ToolResult [TextContent ''Error: Converting circular structure to JSON'']"
proof -
  let ?F = "example_module (JBool False) (Inr (JArr (map JArr two_bars)))"
  let ?S = "example_module (JBool True) (Inr (JArr (map JArr two_bars)))"
  let ?eF = "Error ''Failed to fetch OHLCV data: binance does not support fetchOHLCV''"
  let ?ok = "\<lambda>r::jsval list. Inr ''[]'' :: js_error + string"
  let ?cl = "\<lambda>asset. Inr (closings asset) :: js_error + jsval list"
  let ?cyc = "\<lambda>r::jsval list. Inl (TypeError ''Converting circular structure to JSON'')
                :: js_error + string"
  let ?ao = "\<lambda>(hs::jsval list) (ls::jsval list) (fast::int) (slow::int).
               Inr hs :: js_error + jsval list"
  let ?mom = "\<lambda>(asset::price_series) (period::int).
                Inl (Error ''Invalid period'') :: js_error + jsval list"
  have capF: "\<not> truthy (has (exchange ?F) ''fetchOHLCV'')"
    and capS: "truthy (has (exchange ?S) ''fetchOHLCV'')"
    by (simp_all add: example_module_def example_exchange_def)
  have idF: "exid ?F = ''binance''" by (simp add: example_module_def)
  have fF: "fetchOhlcvData ?F ''BTC/USDT'' ''1h'' 100 fresh_net = (Inl ?eF, fresh_net)"
    by (simp add: fetch_without_capability [OF capF] idF)
  then have fF1: "fst (fetchOhlcvData ?F ''BTC/USDT'' ''1h'' 100 fresh_net) = Inl ?eF"
    by simp
  have callS: "fetchOHLCV (exchange ?S) (ohlcv_request ''BTC/USDT'' ''1h'' 100) (world fresh_net) =
                 (Inr (JArr (map JArr two_bars)), Suc 0)"
    by (simp add: example_module_def example_exchange_def fresh_net_def)
  have "handle_response (JArr (map JArr two_bars)) = Inr (columns two_bars)"
    by (rule handle_response_arrays) (simp_all add: two_bars_def bar_def)
  then have fS: "fst (fetchOhlcvData ?S ''BTC/USDT'' ''1h'' 100 fresh_net) =
                   Inr (columns two_bars)"
    by (simp add: fetch_with_capability [OF capS callS])
  have tryF: "handler_try ?F ?cl ?ok ''BTC/USDT'' ''1h'' 100 fresh_net = (Inl ?eF, fresh_net)"
    by (simp only: handler_try_def fF prod.case sum.case)
  note iF = tool_handler_error_text
    [where ms = ?F and indicator = ?cl and stringify = ?ok and symbol = "''BTC/USDT''"
       and timeframe = "''1h''" and limit = 100 and n = fresh_net and n' = fresh_net
       and e = ?eF and awesomeOscillator = ?ao and fastPeriod = 5 and slowPeriod = 34]
  from iF [THEN conjunct1] tryF
  have w1: "tool_handler ?F ?cl ?ok ''BTC/USDT'' ''1h'' 100 fresh_net =
              (ToolResult [TextContent (''Error: '' @ message ?eF)], fresh_net)"
    by blast
  from iF [THEN conjunct2, THEN conjunct1] fF1
  have w2: "fst (calculate_awesome_oscillator ?F ?ao ?ok ''BTC/USDT'' ''1h'' 5 34 100 fresh_net) =
              ToolResult [TextContent (''Error: '' @ message ?eF)]"
    by blast
  note iS = tool_handler_error_text
    [where ms = ?S and indicator = ?cl and stringify = ?ok and symbol = "''BTC/USDT''"
       and timeframe = "''1h''" and limit = 100 and n = fresh_net
       and e = "Error ''Invalid period''" and asset = "columns two_bars"
       and momentumStrategy = ?mom and period = 14]
  from iS [THEN conjunct2, THEN conjunct2] fS
  have w3: "fst (calculate_momentum_strategy ?S ?mom ?ok ''BTC/USDT'' ''1h'' 14 100 fresh_net) =
              ToolResult [TextContent (''Error: '' @ message (Error ''Invalid period''))]"
    by blast
  note iC = tool_handler_error_text
    [where ms = ?S and indicator = ?cl and stringify = ?cyc and symbol = "''BTC/USDT''"
       and timeframe = "''1h''" and limit = 100 and n = fresh_net
       and e = "TypeError ''Converting circular structure to JSON''"
       and asset = "columns two_bars" and result = "closings (columns two_bars)"]
  from iC [THEN conjunct2, THEN conjunct2] fS
  have w4: "fst (tool_handler ?S ?cl ?cyc ''BTC/USDT'' ''1h'' 100 fresh_net) =
              ToolResult [TextContent (''Error: '' @
                message (TypeError ''Converting circular structure to JSON''))]"
    by blast
  from tryF w1 w2 w3 w4 show ?thesis by simp
qed

text \<open>
  C10. With \<open>EXCHANGE_NAME\<close> unset the identifier is \<open>"binance"\<close>, which is in the
  allow-list; given the library's class of that name, loading succeeds with exactly one
  client, constructed from that class with rate limiting enabled, and that client is the
  module's \<open>exchange\<close>: what a \<open>fetchOhlcvData\<close> call does to the network is the one
  call to that client.
\<close>

theorem load_module_default:
  "exid_of_env None = ''binance'' \<and> ''binance'' \<in> set ALLOWED_EXCHANGES \<and>
   (ccxt ''binance'' = Some ctor \<longrightarrow>
    load_module ccxt None =
      (Inr \<lparr>exid = ''binance'', exchange = ctor \<lparr>enableRateLimit = True\<rparr>\<rparr>,
       [(''binance'', \<lparr>enableRateLimit = True\<rparr>)]) \<and>
    (truthy (has (ctor \<lparr>enableRateLimit = True\<rparr>) ''fetchOHLCV'') \<longrightarrow>
     snd (fetchOhlcvData \<lparr>exid = ''binance'', exchange = ctor \<lparr>enableRateLimit = True\<rparr>\<rparr>
            symbol timeframe limit n) =
       snd (call_fetchOHLCV (ctor \<lparr>enableRateLimit = True\<rparr>)
              (ohlcv_request symbol timeframe limit) n)))"
proof (intro conjI impI)
  show "exid_of_env None = ''binance''" by (simp add: exid_of_env_def)
  show "''binance'' \<in> set ALLOWED_EXCHANGES" by (simp add: ALLOWED_EXCHANGES_def)
next
  assume "ccxt ''binance'' = Some ctor"
  then show "load_module ccxt None =
      (Inr \<lparr>exid = ''binance'', exchange = ctor \<lparr>enableRateLimit = True\<rparr>\<rparr>,
       [(''binance'', \<lparr>enableRateLimit = True\<rparr>)])"
    by (simp add: exid_of_env_def ALLOWED_EXCHANGES_def load_module_def Let_def)
next
  let ?ms = "\<lparr>exid = ''binance'', exchange = ctor \<lparr>enableRateLimit = True\<rparr>\<rparr>"
  assume "truthy (has (ctor \<lparr>enableRateLimit = True\<rparr>) ''fetchOHLCV'')"
  then have sup: "truthy (has (exchange ?ms) ''fetchOHLCV'')" by simp
  obtain out w where call:
    "fetchOHLCV (exchange ?ms) (ohlcv_request symbol timeframe limit) (world n) = (out, w)"
    by (cases "fetchOHLCV (exchange ?ms) (ohlcv_request symbol timeframe limit) (world n)")
  from call have "snd (call_fetchOHLCV (ctor \<lparr>enableRateLimit = True\<rparr>)
                         (ohlcv_request symbol timeframe limit) n) =
                  \<lparr>world = w, requests = requests n @ [ohlcv_request symbol timeframe limit]\<rparr>"
    by (simp add: call_fetchOHLCV_def)
  then show "snd (fetchOhlcvData ?ms symbol timeframe limit n) =
       snd (call_fetchOHLCV (ctor \<lparr>enableRateLimit = True\<rparr>)
              (ohlcv_request symbol timeframe limit) n)"
    by (simp add: fetch_with_capability [OF sup call])
qed

text \<open>
  Loading with the example library and no environment variable, then one fetch.
\<close>

theorem load_module_default_witness:
  "example_ccxt ''binance'' =
     Some (\<lambda>opts. example_exchange (JBool True) (Inr (JArr (map JArr two_bars)))) \<and>
   truthy (has (example_exchange (JBool True) (Inr (JArr (map JArr two_bars)))) ''fetchOHLCV'') \<and>
   load_module example_ccxt None =
     (Inr \<lparr>exid = ''binance'',
           exchange = example_exchange (JBool True) (Inr (JArr (map JArr two_bars)))\<rparr>,
      [(''binance'', \<lparr>enableRateLimit = True\<rparr>)]) \<and>
   snd (fetchOhlcvData
          \<lparr>exid = ''binance'',
            exchange = example_exchange (JBool True) (Inr (JArr (map JArr two_bars)))\<rparr>
          ''BTC/USDT'' ''1h'' 100 fresh_net) =
     \<lparr>world = 1, requests = [ohlcv_request ''BTC/USDT'' ''1h'' 100]\<rparr>"
proof -
  let ?ex = "example_exchange (JBool True) (Inr (JArr (map JArr two_bars)))"
  have h: "example_ccxt ''binance'' = Some (\<lambda>opts. ?ex)"
    by (simp add: example_ccxt_def ALLOWED_EXCHANGES_def)
  have sup: "truthy (has ?ex ''fetchOHLCV'')" by (simp add: example_exchange_def)
  have c: "snd (call_fetchOHLCV ?ex (ohlcv_request ''BTC/USDT'' ''1h'' 100) fresh_net) =
             \<lparr>world = 1, requests = [ohlcv_request ''BTC/USDT'' ''1h'' 100]\<rparr>"
    by (simp add: call_fetchOHLCV_def example_exchange_def fresh_net_def)
  note inst = load_module_default
    [where ccxt = example_ccxt and ctor = "\<lambda>opts. ?ex" and symbol = "''BTC/USDT''"
       and timeframe = "''1h''" and limit = 100 and n = fresh_net,
     THEN conjunct2, THEN conjunct2, rule_format, OF h]
  from inst [THEN conjunct1] inst [THEN conjunct2, rule_format, OF sup] h sup c
  show ?thesis by simp
qed

end
